theory Spec2Isabelle
  imports Main
begin

section \<open>The task-completion monitor of static/js/app.js\<close>

text \<open>
  The monitor is the part of the \<^verbatim>\<open>App\<close> object between \<^verbatim>\<open>startTaskStream\<close> and
  \<^verbatim>\<open>cleanup\<close>. It is single threaded: every handler runs to completion, so a handler is
  a function from the monitor's state to the effects it performs and the state it leaves.
  An \<^verbatim>\<open>async\<close> method is split at each \<^verbatim>\<open>await\<close>: the part up to the request, and the
  continuation that runs when the response arrives.
\<close>

subsection \<open>JavaScript values\<close>

text \<open>
  What \<^verbatim>\<open>JSON.parse\<close> and \<^verbatim>\<open>response.json()\<close> can return, plus \<^verbatim>\<open>undefined\<close> for a
  property that is absent. Numbers are the integers; strings are byte strings.
\<close>

datatype jsval =
    JUndefined
  | JNull
  | JBool bool
  | JNum int
  | JStr string
  | JArr "jsval list"
  | JObj "(string \<times> jsval) list"

fun truthy :: "jsval \<Rightarrow> bool" where
  "truthy JUndefined = False"
| "truthy JNull = False"
| "truthy (JBool b) = b"
| "truthy (JNum n) = (n \<noteq> 0)"
| "truthy (JStr s) = (s \<noteq> [])"
| "truthy (JArr xs) = True"
| "truthy (JObj kvs) = True"

text \<open>\<^verbatim>\<open>a || b\<close>\<close>

definition js_or :: "jsval \<Rightarrow> jsval \<Rightarrow> jsval" where
  "js_or a b = (if truthy a then a else b)"

text \<open>
  \<^verbatim>\<open>v.k\<close> for the property names the monitor reads (none of them is inherited): the
  value of the last entry with that key in an object, \<^verbatim>\<open>undefined\<close> in any other value.
  Reading a property of \<^verbatim>\<open>null\<close> or \<^verbatim>\<open>undefined\<close> throws; \<open>nullish\<close> is tested before.
\<close>

fun getProp :: "string \<Rightarrow> jsval \<Rightarrow> jsval" where
  "getProp k (JObj kvs) = (case map_of (rev kvs) k of Some v \<Rightarrow> v | None \<Rightarrow> JUndefined)"
| "getProp k v = JUndefined"

fun nullish :: "jsval \<Rightarrow> bool" where
  "nullish JUndefined = True"
| "nullish JNull = True"
| "nullish v = False"

fun is_prefix :: "string \<Rightarrow> string \<Rightarrow> bool" where
  "is_prefix [] ys = True"
| "is_prefix (x # xs) [] = False"
| "is_prefix (x # xs) (y # ys) = (x = y \<and> is_prefix xs ys)"

text \<open>\<^verbatim>\<open>haystack.includes(needle)\<close> on strings\<close>

fun str_includes :: "string \<Rightarrow> string \<Rightarrow> bool" where
  "str_includes [] needle = (needle = [])"
| "str_includes (c # cs) needle = (is_prefix needle (c # cs) \<or> str_includes cs needle)"

text \<open>
  \<^verbatim>\<open>v.includes(needle)\<close> with a string argument: substring test on a string, membership
  on an array, and a TypeError (\<open>None\<close>) on every other value, which has no such method.
\<close>

fun js_includes :: "jsval \<Rightarrow> string \<Rightarrow> bool option" where
  "js_includes (JStr s) needle = Some (str_includes s needle)"
| "js_includes (JArr xs) needle = Some (List.member xs (JStr needle))"
| "js_includes v needle = None"

text \<open>
  The decimal digits of a number, and the string a template literal makes of a value.
  JavaScript prints an integer in digits up to a magnitude of \<open>10 ^ 21\<close> and in exponent
  form from there on; \<open>toStr\<close> is its output below that bound.
\<close>

fun nat_str :: "nat \<Rightarrow> string" where
  "nat_str n = (if n < 10 then [''0123456789'' ! n]
                else nat_str (n div 10) @ [''0123456789'' ! (n mod 10)])"

definition int_str :: "int \<Rightarrow> string" where
  "int_str i = (if i < 0 then CHR ''-'' # nat_str (nat (- i)) else nat_str (nat i))"

fun toStr :: "jsval \<Rightarrow> string" and arrStr :: "jsval list \<Rightarrow> string" where
  "toStr JUndefined = ''undefined''"
| "toStr JNull = ''null''"
| "toStr (JBool b) = (if b then ''true'' else ''false'')"
| "toStr (JNum n) = int_str n"
| "toStr (JStr s) = s"
| "toStr (JArr xs) = arrStr xs"
| "toStr (JObj kvs) = ''[object Object]''"
| "arrStr [] = []"
| "arrStr (x # xs) =
     (if nullish x then [] else toStr x) @ (if xs = [] then [] else CHR '','' # arrStr xs)"

subsection \<open>The monitor's state and its effects\<close>

datatype timer =
    Watchdog string
  | ReconnectTimer string
  | StatusCheck string
  | LoginRedirect
  | ProgressAnimation
  | LegacyPolling

datatype request = MonitorTask string | TaskStatus string | CompleteTask string

text \<open>The point an \<^verbatim>\<open>async\<close> method waits at, with what it needs to go on.\<close>

datatype continuation =
    RobustProbe string
  | CompletionProbe string
  | PeriodicStatus string
  | ManualStatus string
  | ManualComplete string jsval

text \<open>A request fails (the fetch or the decoding of its body rejects) or yields a body.\<close>

datatype fetched = Failed | Body jsval

datatype effect =
    Console string
  | OpenChannel nat string
  | CloseChannel nat
  | SetTimeout nat nat timer
  | SetInterval nat nat timer
  | ClearTimer nat
  | Fetch nat request
  | UpdateConnectionStatus string nat
  | AddSSEEvent jsval string
  | UpdateSourcesSection jsval jsval jsval
  | ShowSuccessModal jsval
  | ShowErrorModal jsval
  | SetLoadingState bool
  | Navigate string

text \<open>
  The fields of \<^verbatim>\<open>App\<close> the monitor uses, and below them what the browser holds for it:
  the channels that are open (each with the task its handlers were made for), the timers
  that are armed, the requests in flight, and the next fresh handle. A field holding a handle or \<^verbatim>\<open>null\<close> is an option.
\<close>

record monitor =
  currentTaskId :: string
  reconnectAttempts :: nat
  maxReconnectAttempts :: nat
  isTaskComplete :: bool
  lastEventTime :: int
  currentEventSource :: "nat option"
  reconnectTimeout :: "nat option"
  statusCheckInterval :: "nat option"
  progressInterval :: "nat option"
  pollingInterval :: "nat option"
  openChannels :: "(nat \<times> string) list"
  timers :: "(nat \<times> timer) list"
  pending :: "(nat \<times> continuation) list"
  nextId :: nat

text \<open>What a handler reads from outside: \<^verbatim>\<open>Date.now()\<close>, and whether \<^verbatim>\<open>new EventSource\<close> succeeds.\<close>

record env =
  clock :: int
  eventSourceOk :: bool

type_synonym step = "monitor \<Rightarrow> effect list \<times> monitor"

definition emit :: "effect \<Rightarrow> step" where
  "emit e s = ([e], s)"

definition modify :: "(monitor \<Rightarrow> monitor) \<Rightarrow> step" where
  "modify f s = ([], f s)"

definition skip :: step where
  "skip s = ([], s)"

definition seq :: "step \<Rightarrow> step \<Rightarrow> step" where
  "seq f g s = (case f s of (es, s') \<Rightarrow> (case g s' of (es', s'') \<Rightarrow> (es @ es', s'')))"

fun steps :: "step list \<Rightarrow> step" where
  "steps [] = skip"
| "steps (f # fs) = seq f (steps fs)"

text \<open>Statements that can throw: the effects and state up to the throw are kept.\<close>

datatype completion = Returned | Threw

type_synonym tstep = "monitor \<Rightarrow> completion \<times> effect list \<times> monitor"

definition ok :: "step \<Rightarrow> tstep" where
  "ok f s = (case f s of (es, s') \<Rightarrow> (Returned, es, s'))"

definition throw :: tstep where
  "throw s = (Threw, [], s)"

definition tseq :: "tstep \<Rightarrow> tstep \<Rightarrow> tstep" where
  "tseq f g s =
     (case f s of
        (Threw, es, s') \<Rightarrow> (Threw, es, s')
      | (Returned, es, s') \<Rightarrow> (case g s' of (c, es', s'') \<Rightarrow> (c, es @ es', s'')))"

fun tsteps :: "tstep list \<Rightarrow> tstep" where
  "tsteps [] = ok skip"
| "tsteps (f # fs) = tseq f (tsteps fs)"

text \<open>\<^verbatim>\<open>try { f } catch (error) { h }\<close>\<close>

definition try_catch :: "tstep \<Rightarrow> step \<Rightarrow> step" where
  "try_catch f h s =
     (case f s of
        (Returned, es, s') \<Rightarrow> (es, s')
      | (Threw, es, s') \<Rightarrow> (case h s' of (es', s'') \<Rightarrow> (es @ es', s'')))"

subsection \<open>What the browser does\<close>

text \<open>\<^verbatim>\<open>source.close()\<close>, \<^verbatim>\<open>clearTimeout\<close>/\<^verbatim>\<open>clearInterval\<close>, \<^verbatim>\<open>setTimeout\<close>, \<^verbatim>\<open>setInterval\<close>, \<^verbatim>\<open>fetch\<close>,
  \<^verbatim>\<open>new EventSource\<close>. The handle of a new timer, request or channel is \<open>nextId\<close> of the
  state it is made in.\<close>

definition closeChannel :: "nat \<Rightarrow> step" where
  "closeChannel c s = ([CloseChannel c], s\<lparr>openChannels := filter (\<lambda>p. fst p \<noteq> c) (openChannels s)\<rparr>)"

definition clearTimer :: "nat \<Rightarrow> step" where
  "clearTimer t s = ([ClearTimer t], s\<lparr>timers := filter (\<lambda>p. fst p \<noteq> t) (timers s)\<rparr>)"

definition setTimeout :: "nat \<Rightarrow> timer \<Rightarrow> step" where
  "setTimeout delay cb s =
     ([SetTimeout (nextId s) delay cb],
      s\<lparr>timers := timers s @ [(nextId s, cb)], nextId := Suc (nextId s)\<rparr>)"

definition setInterval :: "nat \<Rightarrow> timer \<Rightarrow> step" where
  "setInterval delay cb s =
     ([SetInterval (nextId s) delay cb],
      s\<lparr>timers := timers s @ [(nextId s, cb)], nextId := Suc (nextId s)\<rparr>)"

definition fetch :: "request \<Rightarrow> continuation \<Rightarrow> step" where
  "fetch r k s =
     ([Fetch (nextId s) r],
      s\<lparr>pending := pending s @ [(nextId s, k)], nextId := Suc (nextId s)\<rparr>)"

definition newEventSource :: "string \<Rightarrow> step" where
  "newEventSource taskRunId s =
     ([OpenChannel (nextId s) taskRunId],
      s\<lparr>currentEventSource := Some (nextId s),
        openChannels := openChannels s @ [(nextId s, taskRunId)],
        nextId := Suc (nextId s)\<rparr>)"

subsection \<open>The user interface the monitor calls into\<close>

text \<open>
  \<^verbatim>\<open>addSSEEvent\<close>, \<^verbatim>\<open>updateSourcesSection\<close>, \<^verbatim>\<open>updateConnectionStatus\<close>, \<^verbatim>\<open>showErrorModal\<close> and
  \<^verbatim>\<open>setLoadingState(false)\<close> only touch the page: each is one effect.
\<close>

definition addSSEEvent :: "jsval \<Rightarrow> string \<Rightarrow> step" where
  "addSSEEvent message eventClass = emit (AddSSEEvent message eventClass)"

definition updateConnectionStatus :: "string \<Rightarrow> nat \<Rightarrow> step" where
  "updateConnectionStatus status attempts = emit (UpdateConnectionStatus status attempts)"

definition showErrorModal :: "jsval \<Rightarrow> step" where
  "showErrorModal message = emit (ShowErrorModal message)"

definition setLoadingState :: "bool \<Rightarrow> step" where
  "setLoadingState isLoading = emit (SetLoadingState isLoading)"

text \<open>\<^verbatim>\<open>showSuccessModal\<close> also ends the session: flag, interval, channel, reconnect timer.\<close>

definition showSuccessModal :: "jsval \<Rightarrow> step" where
  "showSuccessModal response =
     steps [
       modify (\<lambda>s. s\<lparr>isTaskComplete := True\<rparr>),
       (\<lambda>s. case statusCheckInterval s of
               Some t \<Rightarrow> seq (clearTimer t) (modify (\<lambda>s. s\<lparr>statusCheckInterval := None\<rparr>)) s
             | None \<Rightarrow> skip s),
       (\<lambda>s. case currentEventSource s of
               Some c \<Rightarrow> seq (closeChannel c) (modify (\<lambda>s. s\<lparr>currentEventSource := None\<rparr>)) s
             | None \<Rightarrow> skip s),
       (\<lambda>s. case reconnectTimeout s of
               Some t \<Rightarrow> seq (clearTimer t) (modify (\<lambda>s. s\<lparr>reconnectTimeout := None\<rparr>)) s
             | None \<Rightarrow> skip s),
       addSSEEvent (JStr ''Research completed successfully!'') ''status'',
       emit (ShowSuccessModal response)]"


text \<open>
  \<^verbatim>\<open>updateStreamingProgress(data)\<close>. It throws a TypeError where it calls \<^verbatim>\<open>includes\<close> on an
  event type, or \<^verbatim>\<open>includes\<close> and then \<^verbatim>\<open>trim\<close> on a message, that has no such method;
  \<^verbatim>\<open>updateSourcesSection\<close> has run by then. White space is the ASCII white space and
  the length of a message is its number of bytes: on an ASCII message both are what
  \<^verbatim>\<open>trim\<close> and \<^verbatim>\<open>length\<close> give.
\<close>

record progress_data =
  data_message :: jsval
  data_event_type :: jsval
  data_sources_processed :: jsval
  data_sources_total :: jsval
  data_recent_sources :: jsval

fun defined :: "jsval \<Rightarrow> bool" where
  "defined JUndefined = False"
| "defined v = True"

definition is_ws :: "char \<Rightarrow> bool" where
  "is_ws c = List.member [CHR '' '', CHR 0x09, CHR 0x0A, CHR 0x0B, CHR 0x0C, CHR 0x0D] c"

definition lower :: "char \<Rightarrow> char" where
  "lower c = (case map_of (zip ''ABCDEFGHIJKLMNOPQRSTUVWXYZ'' ''abcdefghijklmnopqrstuvwxyz'') c of
                Some l \<Rightarrow> l | None \<Rightarrow> c)"

text \<open>\<^verbatim>\<open>/^(p)/i.test(s)\<close> for a literal \<open>p\<close>\<close>

definition prefix_ci :: "string \<Rightarrow> string \<Rightarrow> bool" where
  "prefix_ci p s = is_prefix (map lower p) (map lower s)"

definition updateStreamingProgress :: "progress_data \<Rightarrow> tstep" where
  "updateStreamingProgress data s =
     (let message = js_or (data_message data) (JStr []);
          eventType = js_or (data_event_type data) (JStr ''unknown'')
      in case js_includes eventType ''status'' of
           None \<Rightarrow> (Threw, [], s)
         | Some isStatus \<Rightarrow>
             (let isProgress = (js_includes eventType ''progress'' = Some True);
                  isError = (if js_includes eventType ''error'' = Some True then True
                             else js_includes eventType ''failed'' = Some True);
                  eventClass = (if isStatus then ''status''
                                else if isProgress then ''progress''
                                else if isError then ''error'' else []);
                  sources =
                    (if defined (data_sources_processed data) then True
                     else if defined (data_sources_total data) then True
                     else truthy (data_recent_sources data));
                  shown = (if sources
                           then [UpdateSourcesSection (data_sources_processed data)
                                   (data_sources_total data) (data_recent_sources data)]
                           else [])
              in case message of
                   JStr m \<Rightarrow>
                     (let isProgressStatsOnly =
                            (isProgress \<and> str_includes m ''Processed''
                               \<and> str_includes m ''sources'' \<and> str_includes m ''('');
                          isEmptyOrMeaningless =
                            (if list_all is_ws m then True
                             else if m = ''Processing...'' then True
                             else if length m < 10 then True
                             else list_ex (\<lambda>p. prefix_ci p m)
                                    [''Processed'', ''Starting'', ''Task status:'',
                                     ''Using advanced'', ''Connection'', ''Initializing''])
                      in (Returned,
                          shown @ (if \<not> isProgressStatsOnly \<and> \<not> isEmptyOrMeaningless
                                   then [AddSSEEvent message eventClass] else []),
                          s))
                 | _ \<Rightarrow> (Threw, shown, s)))"

subsection \<open>Teardown\<close>

definition stopPollingFallback :: step where
  "stopPollingFallback s =
     (case pollingInterval s of
        Some t \<Rightarrow> seq (clearTimer t) (modify (\<lambda>s. s\<lparr>pollingInterval := None\<rparr>)) s
      | None \<Rightarrow> skip s)"

definition cleanupConnections :: step where
  "cleanupConnections =
     steps [
       (\<lambda>s. case currentEventSource s of
               Some c \<Rightarrow> seq (closeChannel c) (modify (\<lambda>s. s\<lparr>currentEventSource := None\<rparr>)) s
             | None \<Rightarrow> skip s),
       stopPollingFallback]"

definition cleanup :: step where
  "cleanup =
     steps [
       modify (\<lambda>s. s\<lparr>isTaskComplete := True\<rparr>),
       (\<lambda>s. case progressInterval s of Some t \<Rightarrow> clearTimer t s | None \<Rightarrow> skip s),
       cleanupConnections]"

subsection \<open>The fallback monitor\<close>

definition startPeriodicStatusCheck :: "string \<Rightarrow> step" where
  "startPeriodicStatusCheck taskRunId =
     steps [
       (\<lambda>s. case statusCheckInterval s of Some t \<Rightarrow> clearTimer t s | None \<Rightarrow> skip s),
       (\<lambda>s. seq (setInterval 30000 (StatusCheck taskRunId))
                (modify (\<lambda>s'. s'\<lparr>statusCheckInterval := Some (nextId s)\<rparr>)) s)]"

definition showConnectionLostUI :: "string \<Rightarrow> step" where
  "showConnectionLostUI taskRunId =
     steps [
       addSSEEvent
         (JStr ''Connection lost, but research continues in background. Checking for updates...'')
         ''error'',
       startPeriodicStatusCheck taskRunId]"

text \<open>\<^verbatim>\<open>startRobustMonitoring\<close> up to its request, and from the response on.\<close>

definition startRobustMonitoring :: "string \<Rightarrow> step" where
  "startRobustMonitoring taskRunId s =
     (if isTaskComplete s then ([], s)
      else steps [
             emit (Console ''Starting robust monitoring fallback for task:''),
             updateConnectionStatus ''monitoring'' 0,
             addSSEEvent
               (JStr ''Using advanced monitoring to track your research progress...'') ''status'',
             fetch (MonitorTask taskRunId) (RobustProbe taskRunId)] s)"

definition startRobustMonitoring_resume :: "string \<Rightarrow> fetched \<Rightarrow> step" where
  "startRobustMonitoring_resume taskRunId response =
     try_catch
       (case response of
          Failed \<Rightarrow> throw
        | Body result \<Rightarrow>
            if nullish result then throw
            else if truthy (getProp ''success'' result) \<and> truthy (getProp ''task_completed'' result)
            then ok (showSuccessModal result)
            else ok (showErrorModal (js_or (getProp ''error'' result)
                                           (JStr ''Task monitoring failed''))))
       (steps [emit (Console ''Robust monitoring failed:''), showConnectionLostUI taskRunId])"

subsection \<open>Connection errors and reconnection\<close>

text \<open>\<^verbatim>\<open>Math.min(Math.pow(2, this.reconnectAttempts), 30) * 1000\<close>\<close>

definition waitTime :: "nat \<Rightarrow> nat" where
  "waitTime attempts = min (2 ^ attempts) 30 * 1000"

definition handleConnectionError :: "string \<Rightarrow> env \<Rightarrow> step" where
  "handleConnectionError taskRunId env s =
     (if isTaskComplete s then ([], s)
      else steps [
        modify (\<lambda>s. s\<lparr>reconnectAttempts := reconnectAttempts s + 1\<rparr>),
        emit (Console ''Connection error. Attempt''),
        (\<lambda>s. case currentEventSource s of
                Some c \<Rightarrow> seq (closeChannel c) (modify (\<lambda>s. s\<lparr>currentEventSource := None\<rparr>)) s
              | None \<Rightarrow> skip s),
        (\<lambda>s. if reconnectAttempts s \<ge> 3 \<and> clock env - lastEventTime s < 5000
              then steps [
                     emit (Console ''Rapid failures detected, likely authentication issue. Switching to robust monitoring.''),
                     startRobustMonitoring taskRunId] s
              else if reconnectAttempts s \<le> maxReconnectAttempts s
              then steps [
                     updateConnectionStatus ''reconnecting'' (reconnectAttempts s),
                     addSSEEvent
                       (JStr (''Connection interrupted. Reconnecting in ''
                              @ nat_str (waitTime (reconnectAttempts s) div 1000)
                              @ ''s... (attempt '' @ nat_str (reconnectAttempts s) @ ''/''
                              @ nat_str (maxReconnectAttempts s) @ '')''))
                       ''status'',
                     (\<lambda>s. seq (setTimeout (waitTime (reconnectAttempts s)) (ReconnectTimer taskRunId))
                              (modify (\<lambda>s'. s'\<lparr>reconnectTimeout := Some (nextId s)\<rparr>)) s)] s
              else steps [
                     emit (Console ''Max reconnection attempts reached, falling back to robust monitoring''),
                     addSSEEvent
                       (JStr ''Live feed unavailable. Switching to background monitoring to track completion...'')
                       ''status'',
                     startRobustMonitoring taskRunId] s)] s)"

definition connectToStreamRobust :: "string \<Rightarrow> env \<Rightarrow> step" where
  "connectToStreamRobust taskRunId env s =
     (if isTaskComplete s then ([], s)
      else if eventSourceOk env then newEventSource taskRunId s
      else steps [
             emit (Console ''Failed to create EventSource:''),
             handleConnectionError taskRunId env] s)"

subsection \<open>Completion\<close>

text \<open>
  An exception in an \<^verbatim>\<open>async\<close> method rejects its promise; nothing after the throw runs and
  nothing reaches the caller.
\<close>

definition async :: "tstep \<Rightarrow> step" where
  "async f = try_catch f skip"

definition no_data :: progress_data where
  "no_data = \<lparr>data_message = JUndefined, data_event_type = JUndefined,
     data_sources_processed = JUndefined, data_sources_total = JUndefined,
     data_recent_sources = JUndefined\<rparr>"

text \<open>\<^verbatim>\<open>handleTaskCompletion(data, taskRunId)\<close> with \<open>status\<close> for \<^verbatim>\<open>data.status\<close>, up to
  its request, and from the response on.\<close>

definition handleTaskCompletion :: "jsval \<Rightarrow> string \<Rightarrow> step" where
  "handleTaskCompletion status taskRunId =
     async (tsteps [
       ok (modify (\<lambda>s. s\<lparr>isTaskComplete := True\<rparr>)),
       ok (emit (Console ''Handling task completion:'')),
       ok cleanupConnections,
       updateStreamingProgress
         (no_data\<lparr>data_message := JStr ''Task completed, processing final results...'',
                  data_event_type := JStr ''completion''\<rparr>),
       ok (if status = JStr ''completed''
           then fetch (MonitorTask taskRunId) (CompletionProbe taskRunId)
           else steps [
                  showErrorModal (JStr (''Task failed with status: '' @ toStr status)),
                  setLoadingState False])])"

definition handleTaskCompletion_resume :: "string \<Rightarrow> fetched \<Rightarrow> step" where
  "handleTaskCompletion_resume taskRunId response =
     steps [
       try_catch
         (case response of
            Failed \<Rightarrow> throw
          | Body result \<Rightarrow>
              if nullish result then throw
              else if truthy (getProp ''success'' result) \<and> truthy (getProp ''task_completed'' result)
              then ok (showSuccessModal result)
              else ok (showErrorModal (js_or (getProp ''error'' result)
                                             (JStr ''Failed to retrieve final results''))))
         (steps [
            emit (Console ''Final result retrieval error:''),
            showErrorModal (JStr ''Failed to retrieve final results'')]),
       setLoadingState False]"

subsection \<open>Decoded events\<close>

definition handleTaskStatusEvent :: "jsval \<Rightarrow> string \<Rightarrow> tstep" where
  "handleTaskStatusEvent eventData taskRunId =
     tsteps [
       updateStreamingProgress
         (no_data\<lparr>data_message := getProp ''message'' eventData,
                  data_event_type := JStr (''status.'' @ toStr (getProp ''status'' eventData))\<rparr>),
       ok (if truthy (getProp ''is_complete'' eventData)
           then steps [
                  emit (Console ''Task completed with status:''),
                  handleTaskCompletion (getProp ''status'' eventData) taskRunId]
           else skip)]"

definition handleTaskProgressEvent :: "jsval \<Rightarrow> tstep" where
  "handleTaskProgressEvent eventData =
     updateStreamingProgress
       \<lparr>data_message =
          js_or (getProp ''message'' eventData)
            (JStr (''Processed '' @ toStr (js_or (getProp ''sources_processed'' eventData) (JNum 0))
                   @ '' of '' @ toStr (js_or (getProp ''sources_total'' eventData) (JNum 0))
                   @ '' sources'')),
        data_event_type = JStr ''progress_stats'',
        data_sources_processed = getProp ''sources_processed'' eventData,
        data_sources_total = getProp ''sources_total'' eventData,
        data_recent_sources = getProp ''recent_sources'' eventData\<rparr>"

definition handleTaskLogEvent :: "jsval \<Rightarrow> tstep" where
  "handleTaskLogEvent eventData =
     updateStreamingProgress
       \<lparr>data_message = js_or (getProp ''message'' eventData) (JStr ''Processing...''),
        data_event_type =
          JStr (''log.'' @ toStr (js_or (getProp ''log_level'' eventData) (JStr ''info''))),
        data_sources_processed = getProp ''sources_processed'' eventData,
        data_sources_total = getProp ''sources_total'' eventData,
        data_recent_sources = getProp ''recent_sources'' eventData\<rparr>"

text \<open>\<^verbatim>\<open>message.includes('Authentication required') || message.includes('Unauthorized access')\<close>:
  \<open>None\<close> where \<^verbatim>\<open>message\<close> has no \<^verbatim>\<open>includes\<close>.\<close>

definition isAuthError :: "jsval \<Rightarrow> bool option" where
  "isAuthError message =
     (case js_includes message ''Authentication required'' of
        None \<Rightarrow> None
      | Some True \<Rightarrow> Some True
      | Some False \<Rightarrow> js_includes message ''Unauthorized access'')"

definition handleTaskErrorEvent :: "jsval \<Rightarrow> string \<Rightarrow> env \<Rightarrow> tstep" where
  "handleTaskErrorEvent eventData taskRunId env =
     (let message = getProp ''message'' eventData in
      tsteps [
        ok (emit (Console ''Task error:'')),
        (case isAuthError message of
           None \<Rightarrow> throw
         | Some True \<Rightarrow>
             ok (steps [
               emit (Console ''Authentication error in SSE stream''),
               showErrorModal (JStr ''Authentication error. Please sign in again.''),
               setLoadingState False,
               setTimeout 2000 LoginRedirect])
         | Some False \<Rightarrow>
             tsteps [
               updateStreamingProgress
                 (no_data\<lparr>data_message := JStr (''Error: '' @ toStr message),
                          data_event_type := JStr ''error''\<rparr>),
               ok (handleConnectionError taskRunId env)])])"

definition handleRobustEvent :: "jsval \<Rightarrow> string \<Rightarrow> env \<Rightarrow> tstep" where
  "handleRobustEvent eventData taskRunId env =
     tsteps [
       ok (emit (Console ''Robust event received:'')),
       ok (modify (\<lambda>s. s\<lparr>reconnectAttempts := 0\<rparr>)),
       (if nullish eventData then throw
        else let type = getProp ''type'' eventData in
          if type = JStr ''task.status'' then handleTaskStatusEvent eventData taskRunId
          else if type = JStr ''task.progress'' then handleTaskProgressEvent eventData
          else if type = JStr ''task.log'' then handleTaskLogEvent eventData
          else if type = JStr ''error'' then handleTaskErrorEvent eventData taskRunId env
          else tsteps [
                 ok (emit (Console ''Unknown event type:'')),
                 updateStreamingProgress
                   (no_data\<lparr>data_message := js_or (getProp ''message'' eventData)
                                                   (JStr ''Processing...''),
                            data_event_type := type\<rparr>)])]"

subsection \<open>The channel's handlers\<close>

text \<open>
  \<^verbatim>\<open>onmessage\<close>, \<^verbatim>\<open>onerror\<close> and \<^verbatim>\<open>onopen\<close> as \<^verbatim>\<open>connectToStreamRobust\<close> installs them.
  \<open>parse\<close> is \<^verbatim>\<open>JSON.parse\<close>, \<open>None\<close> where it throws; \<open>closed\<close> is whether the browser
  reports the channel's ready state as closed.
\<close>

definition onmessage :: "(string \<Rightarrow> jsval option) \<Rightarrow> string \<Rightarrow> env \<Rightarrow> string \<Rightarrow> step" where
  "onmessage parse taskRunId env raw =
     try_catch
       (case parse raw of
          None \<Rightarrow> throw
        | Some eventData \<Rightarrow>
            tsteps [
              ok (modify (\<lambda>s. s\<lparr>lastEventTime := clock env\<rparr>)),
              handleRobustEvent eventData taskRunId env])
       (emit (Console ''Failed to parse SSE event:''))"

definition onerror :: "string \<Rightarrow> env \<Rightarrow> bool \<Rightarrow> tstep" where
  "onerror taskRunId env closed s =
     (case currentEventSource s of
        None \<Rightarrow> (Threw, [Console ''SSE connection error:''], s)
      | Some c \<Rightarrow>
          ok (steps [
            emit (Console ''SSE connection error:''),
            emit (Console ''EventSource state:''),
            (\<lambda>s. if isTaskComplete s then skip s
                  else steps [
                    (if closed then emit (Console ''Connection closed by server, likely auth issue'')
                     else skip),
                    handleConnectionError taskRunId env] s)]) s)"

definition onopen :: step where
  "onopen =
     steps [
       emit (Console ''SSE connection established successfully''),
       updateConnectionStatus ''connected'' 0]"

subsection \<open>Timers and the manual check\<close>

definition manualStatusCheck :: "string \<Rightarrow> step" where
  "manualStatusCheck taskRunId = fetch (TaskStatus taskRunId) (ManualStatus taskRunId)"

definition manualStatusCheck_failed :: step where
  "manualStatusCheck_failed =
     steps [
       emit (Console ''Manual status check failed:''),
       addSSEEvent
         (JStr ''Status check failed. Your research may still be running. Try again in a moment.'')
         ''error'']"

definition manualStatusCheck_status :: "string \<Rightarrow> env \<Rightarrow> fetched \<Rightarrow> step" where
  "manualStatusCheck_status taskRunId env response =
     try_catch
       (case response of
          Failed \<Rightarrow> throw
        | Body statusResult \<Rightarrow>
            if nullish statusResult then throw
            else if truthy (getProp ''is_complete'' statusResult)
            then (if getProp ''status'' statusResult = JStr ''completed''
                  then ok (fetch (CompleteTask taskRunId) (ManualComplete taskRunId statusResult))
                  else ok (showErrorModal
                             (JStr (''Task completed with status: ''
                                    @ toStr (getProp ''status'' statusResult)))))
            else ok (steps [
                   addSSEEvent
                     (JStr ''Research is still in progress. Attempting to reconnect to live feed...'')
                     ''status'',
                   modify (\<lambda>s. s\<lparr>reconnectAttempts := 0\<rparr>),
                   connectToStreamRobust taskRunId env]))
       manualStatusCheck_failed"

definition manualStatusCheck_complete :: "string \<Rightarrow> jsval \<Rightarrow> fetched \<Rightarrow> step" where
  "manualStatusCheck_complete taskRunId statusResult response =
     try_catch
       (case response of
          Failed \<Rightarrow> throw
        | Body completeResult \<Rightarrow>
            if nullish completeResult then throw
            else if truthy (getProp ''success'' completeResult)
            then ok (showSuccessModal completeResult)
            else ok (showErrorModal
                       (JStr (''Task completed with status: ''
                              @ toStr (getProp ''status'' statusResult)))))
       manualStatusCheck_failed"

text \<open>The callback of the status interval, up to its request, and from the response on.\<close>

definition statusCheckTick :: "string \<Rightarrow> step" where
  "statusCheckTick taskRunId s =
     (if isTaskComplete s
      then (case statusCheckInterval s of Some t \<Rightarrow> clearTimer t s | None \<Rightarrow> skip s)
      else fetch (TaskStatus taskRunId) (PeriodicStatus taskRunId) s)"

definition statusCheckTick_resume :: "string \<Rightarrow> fetched \<Rightarrow> step" where
  "statusCheckTick_resume taskRunId response =
     try_catch
       (case response of
          Failed \<Rightarrow> throw
        | Body statusResult \<Rightarrow>
            if nullish statusResult then throw
            else if truthy (getProp ''is_complete'' statusResult)
            then ok (steps [
                   (\<lambda>s. case statusCheckInterval s of Some t \<Rightarrow> clearTimer t s | None \<Rightarrow> skip s),
                   (if getProp ''status'' statusResult = JStr ''completed''
                    then manualStatusCheck taskRunId
                    else showErrorModal
                           (JStr (''Task completed with status: ''
                                  @ toStr (getProp ''status'' statusResult))))])
            else ok skip)
       (emit (Console ''Periodic status check failed:''))"

text \<open>The callbacks of the reconnect timeout and of the 30 second timeout of \<^verbatim>\<open>startTaskStream\<close>.\<close>

definition reconnectTimerFired :: "string \<Rightarrow> env \<Rightarrow> step" where
  "reconnectTimerFired taskRunId env s =
     (if \<not> isTaskComplete s then connectToStreamRobust taskRunId env s else ([], s))"

definition watchdogFired :: "string \<Rightarrow> step" where
  "watchdogFired taskRunId s =
     (if \<not> isTaskComplete s then startRobustMonitoring taskRunId s else ([], s))"

definition startTaskStream :: "string \<Rightarrow> env \<Rightarrow> step" where
  "startTaskStream taskRunId env =
     steps [
       emit (Console ''Starting robust task monitoring for:''),
       modify (\<lambda>s. s\<lparr>currentTaskId := taskRunId, reconnectAttempts := 0,
                       maxReconnectAttempts := 10, isTaskComplete := False,
                       lastEventTime := clock env\<rparr>),
       connectToStreamRobust taskRunId env,
       setTimeout 30000 (Watchdog taskRunId)]"

subsection \<open>The event loop\<close>

text \<open>
  The browser runs a timer's callback only while the timer is armed (a timeout is disarmed
  as it fires), a continuation only for a request in flight, and a message handler only
  for a channel that is open. The redirect timeout assigns the login page to
  \<^verbatim>\<open>window.location.href\<close>: the page is left, and its \<^verbatim>\<open>beforeunload\<close> handler runs
  \<^verbatim>\<open>cleanup\<close>.
\<close>

definition disarm :: "nat \<Rightarrow> monitor \<Rightarrow> monitor" where
  "disarm t s = s\<lparr>timers := filter (\<lambda>p. fst p \<noteq> t) (timers s)\<rparr>"

definition fireTimer :: "env \<Rightarrow> nat \<Rightarrow> step" where
  "fireTimer env t s =
     (case map_of (timers s) t of
        None \<Rightarrow> ([], s)
      | Some (Watchdog taskRunId) \<Rightarrow> watchdogFired taskRunId (disarm t s)
      | Some (ReconnectTimer taskRunId) \<Rightarrow> reconnectTimerFired taskRunId env (disarm t s)
      | Some (StatusCheck taskRunId) \<Rightarrow> statusCheckTick taskRunId s
      | Some LoginRedirect \<Rightarrow> seq (emit (Navigate ''/login'')) cleanup (disarm t s)
      | Some ProgressAnimation \<Rightarrow> ([], s)
      | Some LegacyPolling \<Rightarrow> ([], s))"

definition respond :: "env \<Rightarrow> nat \<Rightarrow> fetched \<Rightarrow> step" where
  "respond env r response s =
     (case map_of (pending s) r of
        None \<Rightarrow> ([], s)
      | Some k \<Rightarrow>
          (let s' = s\<lparr>pending := filter (\<lambda>p. fst p \<noteq> r) (pending s)\<rparr> in
           case k of
             RobustProbe taskRunId \<Rightarrow> startRobustMonitoring_resume taskRunId response s'
           | CompletionProbe taskRunId \<Rightarrow> handleTaskCompletion_resume taskRunId response s'
           | PeriodicStatus taskRunId \<Rightarrow> statusCheckTick_resume taskRunId response s'
           | ManualStatus taskRunId \<Rightarrow> manualStatusCheck_status taskRunId env response s'
           | ManualComplete taskRunId statusResult \<Rightarrow>
               manualStatusCheck_complete taskRunId statusResult response s'))"

definition deliver :: "(string \<Rightarrow> jsval option) \<Rightarrow> env \<Rightarrow> nat \<Rightarrow> string \<Rightarrow> step" where
  "deliver parse env c raw s =
     (case map_of (openChannels s) c of
        None \<Rightarrow> ([], s)
      | Some taskRunId \<Rightarrow> onmessage parse taskRunId env raw s)"

subsection \<open>Reading a handler's effects\<close>

fun isTimerEffect :: "effect \<Rightarrow> bool" where
  "isTimerEffect (SetTimeout t d cb) = True"
| "isTimerEffect (SetInterval t d cb) = True"
| "isTimerEffect e = False"

text \<open>A reconnect wait is scheduled; the fallback monitor's completion probe is sent.\<close>

fun isReconnectWait :: "effect \<Rightarrow> bool" where
  "isReconnectWait (SetTimeout t d (ReconnectTimer taskRunId)) = True"
| "isReconnectWait e = False"

fun isFallbackProbe :: "effect \<Rightarrow> bool" where
  "isFallbackProbe (Fetch r (MonitorTask taskRunId)) = True"
| "isFallbackProbe e = False"

definition schedulesReconnect :: "effect list \<Rightarrow> bool" where
  "schedulesReconnect es = list_ex isReconnectWait es"

definition startsFallback :: "effect list \<Rightarrow> bool" where
  "startsFallback es = list_ex isFallbackProbe es"

text \<open>The outcome shown to the user, and everything the monitor shows on the page.\<close>

fun isOutcome :: "effect \<Rightarrow> bool" where
  "isOutcome (ShowSuccessModal r) = True"
| "isOutcome (ShowErrorModal m) = True"
| "isOutcome e = False"

fun isProjection :: "effect \<Rightarrow> bool" where
  "isProjection (UpdateConnectionStatus st n) = True"
| "isProjection (AddSSEEvent m c) = True"
| "isProjection (UpdateSourcesSection a b c) = True"
| "isProjection (ShowSuccessModal r) = True"
| "isProjection (ShowErrorModal m) = True"
| "isProjection (SetLoadingState b) = True"
| "isProjection e = False"

subsection \<open>Scenarios\<close>

text \<open>
  The channel fails once for each element of \<open>envs\<close>; where the handler schedules a
  reconnect wait, the timer fires and the channel is opened again before the next failure.
  The result lists the effects of each call of \<^verbatim>\<open>handleConnectionError\<close>.
\<close>

fun connectionErrors :: "string \<Rightarrow> env list \<Rightarrow> monitor \<Rightarrow> effect list list \<times> monitor" where
  "connectionErrors taskRunId [] s = ([], s)"
| "connectionErrors taskRunId (env # envs) s =
     (case handleConnectionError taskRunId env s of
        (es, s1) \<Rightarrow>
          (case (if schedulesReconnect es
                 then (case reconnectTimeout s1 of
                         Some t \<Rightarrow> reconnectTimerFired taskRunId (env\<lparr>eventSourceOk := True\<rparr>)
                                     (disarm t s1)
                       | None \<Rightarrow> skip s1)
                 else skip s1) of
             (es', s2) \<Rightarrow>
               (case connectionErrors taskRunId envs s2 of
                  (ess, s3) \<Rightarrow> (es # ess, s3))))"

text \<open>A session that is streaming: one channel open, the 30 second timeout armed.\<close>

definition streaming :: monitor where
  "streaming =
     \<lparr>currentTaskId = ''t'', reconnectAttempts = 0, maxReconnectAttempts = 10,
      isTaskComplete = False, lastEventTime = 1000, currentEventSource = Some 1,
      reconnectTimeout = None, statusCheckInterval = None, progressInterval = None,
      pollingInterval = None, openChannels = [(1, ''t'')], timers = [(2, Watchdog ''t'')],
      pending = [], nextId = 3\<rparr>"

text \<open>Eleven failures, six seconds apart, the first six seconds after the last event.\<close>

definition everySixSeconds :: "env list" where
  "everySixSeconds = map (\<lambda>k. \<lparr>clock = 1000 + 6000 * int k, eventSourceOk = True\<rparr>) [1 ..< 12]"

text \<open>\<^verbatim>\<open>JSON.parse\<close> on the payloads of the examples: two that are JSON and the rest, taken
  here as malformed.\<close>

definition parseSample :: "string \<Rightarrow> jsval option" where
  "parseSample raw = (if raw = ''{\"type\":\"task.log\",\"message\":\"Reading the annual filings\"}''
     then Some (JObj [(''type'', JStr ''task.log''), (''message'', JStr ''Reading the annual filings'')])
     else if raw = ''{\"type\":\"error\"}'' then Some (JObj [(''type'', JStr ''error'')])
     else None)"

text \<open>The streaming session after its 30 second timeout has fired: the completion probe
  of the fallback monitor is in flight. And after one connection error at 9000 ms: the
  reconnect timeout is armed.\<close>

definition probing :: monitor where
  "probing = snd (fireTimer \<lparr>clock = 31000, eventSourceOk = True\<rparr> 2 streaming)"

definition reconnecting :: monitor where
  "reconnecting = snd (handleConnectionError ''t'' \<lparr>clock = 9000, eventSourceOk = True\<rparr> streaming)"

text \<open>An event of type \<^verbatim>\<open>error\<close> that reports an authentication failure.\<close>

definition authEvent :: jsval where
  "authEvent =
     JObj [(''type'', JStr ''error''), (''message'', JStr ''Unauthorized access to task stream'')]"

text \<open>A handler run at time \<open>t\<close>, with \<^verbatim>\<open>new EventSource\<close> succeeding.\<close>

definition at :: "int \<Rightarrow> env" where
  "at t = \<lparr>clock = t, eventSourceOk = True\<rparr>"

text \<open>The body of a status response for a task that is running, and two status events
  that report the end of the task.\<close>

definition stillRunning :: jsval where
  "stillRunning = JObj [(''is_complete'', JBool False), (''status'', JStr ''running'')]"

definition failedEvent :: jsval where
  "failedEvent = JObj [(''type'', JStr ''task.status''), (''status'', JStr ''failed''),
     (''is_complete'', JBool True), (''message'', JStr ''Task run failed upstream'')]"

definition completedEvent :: jsval where
  "completedEvent = JObj [(''type'', JStr ''task.status''), (''status'', JStr ''completed''),
     (''is_complete'', JBool True), (''message'', JStr ''Task run completed upstream'')]"

text \<open>
  Two channels open at once. From \<open>probing\<close>: the completion probe fails, so the status
  polling starts; a manual status check finds the task still running and reconnects.
  \<^verbatim>\<open>connectToStreamRobust\<close> opens channel 6 and stores it over channel 1, which was open all
  along and is never closed.
\<close>

definition twoChannels :: monitor where
  "twoChannels =
     snd (respond (at 50000) 5 (Body stillRunning)
       (snd (manualStatusCheck ''t''
         (snd (respond (at 40000) 3 Failed probing)))))"

text \<open>Then the status event that ends the task arrives on channel 6: the session is
  complete, channel 6 is closed, channel 1 is still open.\<close>

definition completedLeaked :: monitor where
  "completedLeaked = snd (deliver (\<lambda>raw. Some failedEvent) (at 60000) 6 [] twoChannels)"

section \<open>Properties\<close>

lemmas step_defs =
  emit_def modify_def skip_def seq_def ok_def throw_def tseq_def try_catch_def async_def

lemmas browser_defs =
  closeChannel_def clearTimer_def setTimeout_def setInterval_def fetch_def newEventSource_def

lemmas ui_defs =
  addSSEEvent_def updateConnectionStatus_def showErrorModal_def setLoadingState_def

text \<open>
  C3. In a session that is not complete, a connection error that brings the attempt
  counter to 3 or more less than 5000 ms after the last event starts the fallback monitor
  at once: its probe is sent and is the request in flight, and no timer is set, so no
  reconnect wait is scheduled.
\<close>

theorem rapid_failure_escalates:
  assumes "\<not> isTaskComplete s"
    and "reconnectAttempts s + 1 \<ge> 3"
    and "clock env - lastEventTime s < 5000"
  shows "case handleConnectionError taskRunId env s of (es, s') \<Rightarrow>
           Fetch (nextId s) (MonitorTask taskRunId) \<in> set es
         \<and> UpdateConnectionStatus ''monitoring'' 0 \<in> set es
         \<and> pending s' = pending s @ [(nextId s, RobustProbe taskRunId)]
         \<and> filter isTimerEffect es = []
         \<and> timers s' = timers s
         \<and> reconnectTimeout s' = reconnectTimeout s
         \<and> reconnectAttempts s' = reconnectAttempts s + 1"
  using assms
  by (simp add: handleConnectionError_def startRobustMonitoring_def step_defs browser_defs ui_defs
      split: option.splits)

theorem rapid_failure_escalates_witness:
  "case handleConnectionError ''t'' \<lparr>clock = 3000, eventSourceOk = True\<rparr>
          (streaming\<lparr>reconnectAttempts := 2\<rparr>) of
     (es, s') \<Rightarrow>
       Fetch 3 (MonitorTask ''t'') \<in> set es \<and> filter isTimerEffect es = []
     \<and> timers s' = [(2, Watchdog ''t'')] \<and> reconnectAttempts s' = 3"
  using rapid_failure_escalates
    [of "streaming\<lparr>reconnectAttempts := 2\<rparr>" "\<lparr>clock = 3000, eventSourceOk = True\<rparr>" "''t''"]
  by (simp add: streaming_def split: prod.splits)

text \<open>
  C8. After the \<open>n\<close>-th connection error in a row, \<open>n\<close> from 1 to 10, where the handler
  waits before reconnecting (the rapid-failure test of C3 does not hold), the one timer it
  sets is the reconnect timeout, with a delay of \<open>min (2 ^ n) 30\<close> seconds; the delay is a
  function of \<open>n\<close> alone.
\<close>

theorem reconnect_delay:
  assumes "\<not> isTaskComplete s"
    and "n = reconnectAttempts s + 1"
    and "1 \<le> n" and "n \<le> 10"
    and "maxReconnectAttempts s = 10"
    and "\<not> (n \<ge> 3 \<and> clock env - lastEventTime s < 5000)"
  shows "case handleConnectionError taskRunId env s of (es, s') \<Rightarrow>
           filter isTimerEffect es =
             [SetTimeout (nextId s) (min (2 ^ n) 30 * 1000) (ReconnectTimer taskRunId)]
         \<and> timers s' = timers s @ [(nextId s, ReconnectTimer taskRunId)]
         \<and> reconnectTimeout s' = Some (nextId s)"
  using assms
  by (auto simp add: handleConnectionError_def waitTime_def step_defs browser_defs ui_defs
      split: option.splits)

theorem reconnect_delay_witness:
  "case handleConnectionError ''t'' \<lparr>clock = 9000, eventSourceOk = True\<rparr>
          (streaming\<lparr>reconnectAttempts := 3\<rparr>) of
     (es, s') \<Rightarrow> filter isTimerEffect es = [SetTimeout 3 16000 (ReconnectTimer ''t'')]"
  using reconnect_delay
    [of "streaming\<lparr>reconnectAttempts := 3\<rparr>" 4 "\<lparr>clock = 9000, eventSourceOk = True\<rparr>" "''t''"]
  by (simp add: streaming_def split: prod.splits)

text \<open>
  One connection error outside the rapid-failure window: what the handler does depends on
  the attempt counter alone, and it leaves the flag, the limit and the time of the last
  event as they were.
\<close>

lemma slow_error_step:
  assumes "\<not> isTaskComplete s" and "maxReconnectAttempts s = 10"
    and "clock env - lastEventTime s \<ge> 5000"
  shows "case handleConnectionError taskRunId env s of (es, s') \<Rightarrow>
           schedulesReconnect es = (reconnectAttempts s + 1 \<le> 10)
         \<and> startsFallback es = (\<not> reconnectAttempts s + 1 \<le> 10)
         \<and> reconnectAttempts s' = reconnectAttempts s + 1
         \<and> \<not> isTaskComplete s' \<and> maxReconnectAttempts s' = 10
         \<and> lastEventTime s' = lastEventTime s"
  using assms
  by (auto simp add: handleConnectionError_def startRobustMonitoring_def schedulesReconnect_def
      startsFallback_def step_defs browser_defs ui_defs split: option.splits)

lemma slow_errors:
  assumes "\<not> isTaskComplete s" and "maxReconnectAttempts s = 10"
    and "list_all (\<lambda>env. clock env - lastEventTime s \<ge> 5000) envs"
  shows "map schedulesReconnect (fst (connectionErrors taskRunId envs s)) =
           map (\<lambda>k. k \<le> 10) [reconnectAttempts s + 1 ..< reconnectAttempts s + 1 + length envs]
       \<and> map startsFallback (fst (connectionErrors taskRunId envs s)) =
           map (\<lambda>k. \<not> k \<le> 10) [reconnectAttempts s + 1 ..< reconnectAttempts s + 1 + length envs]"
  using assms
proof (induction envs arbitrary: s)
  case Nil
  then show ?case by simp
next
  case (Cons env envs)
  obtain es s1 where h: "handleConnectionError taskRunId env s = (es, s1)"
    by (cases "handleConnectionError taskRunId env s")
  from Cons.prems have slow: "clock env - lastEventTime s \<ge> 5000" by simp
  from slow_error_step [OF Cons.prems(1) Cons.prems(2) slow, of taskRunId] h
  have a: "schedulesReconnect es = (reconnectAttempts s + 1 \<le> 10)"
    and b: "startsFallback es = (\<not> reconnectAttempts s + 1 \<le> 10)"
    and s1: "reconnectAttempts s1 = reconnectAttempts s + 1" "\<not> isTaskComplete s1"
      "maxReconnectAttempts s1 = 10" "lastEventTime s1 = lastEventTime s"
    by simp_all
  define reopen where "reopen =
    (if schedulesReconnect es
     then (case reconnectTimeout s1 of
             Some t \<Rightarrow> reconnectTimerFired taskRunId (env\<lparr>eventSourceOk := True\<rparr>) (disarm t s1)
           | None \<Rightarrow> skip s1)
     else skip s1)"
  obtain es' s2 where r: "reopen = (es', s2)" by (cases reopen)
  have s2: "reconnectAttempts s2 = reconnectAttempts s + 1" "\<not> isTaskComplete s2"
      "maxReconnectAttempts s2 = 10" "lastEventTime s2 = lastEventTime s"
    using r s1 unfolding reopen_def
    by (auto simp add: skip_def reconnectTimerFired_def connectToStreamRobust_def disarm_def
        browser_defs split: if_splits option.splits)
  have rest: "list_all (\<lambda>env. clock env - lastEventTime s2 \<ge> 5000) envs"
    using Cons.prems(3) s2 by simp
  note ih = Cons.IH [OF s2(2) s2(3) rest]
  have unfold: "fst (connectionErrors taskRunId (env # envs) s) =
      es # fst (connectionErrors taskRunId envs s2)"
    using h r unfolding reopen_def by (simp split: prod.splits)
  have upt: "[reconnectAttempts s + 1 ..< reconnectAttempts s + 1 + length (env # envs)] =
      (reconnectAttempts s + 1) # [reconnectAttempts s2 + 1 ..< reconnectAttempts s2 + 1 + length envs]"
    using s2(1) by (subst upt_rec) simp
  show ?case
    unfolding unfold upt using ih a b by simp
qed

text \<open>
  C4. Eleven connection errors in a row in a session that started with the counter at 0
  and the limit at 10, each at least 6 seconds after the last event: each of the first ten
  schedules a reconnect wait and does not start the fallback monitor; the eleventh, where
  the counter first exceeds the limit, starts the fallback monitor and schedules no wait.
\<close>

theorem eleven_errors:
  assumes "length envs = 11"
    and "list_all (\<lambda>env. clock env - lastEventTime s \<ge> 6000) envs"
    and "reconnectAttempts s = 0" and "maxReconnectAttempts s = 10"
    and "\<not> isTaskComplete s"
  shows "map schedulesReconnect (fst (connectionErrors taskRunId envs s)) = replicate 10 True @ [False]
       \<and> map startsFallback (fst (connectionErrors taskRunId envs s)) = replicate 10 False @ [True]"
proof -
  have slow: "list_all (\<lambda>env. clock env - lastEventTime s \<ge> 5000) envs"
    using assms(2) by (induction envs) auto
  have idx: "[reconnectAttempts s + 1 ..< reconnectAttempts s + 1 + length envs] =
      [1, 2, 3, 4, 5, 6, 7, 8, 9, 10, 11]"
    using assms(1) assms(3) by (simp add: upt_conv_Cons)
  from slow_errors [OF assms(5) assms(4) slow, of taskRunId]
  show ?thesis unfolding idx by (simp add: numeral_eq_Suc)
qed

theorem eleven_errors_witness:
  "map schedulesReconnect (fst (connectionErrors ''t'' everySixSeconds streaming)) =
     replicate 10 True @ [False]
 \<and> map startsFallback (fst (connectionErrors ''t'' everySixSeconds streaming)) =
     replicate 10 False @ [True]"
proof -
  have l: "length everySixSeconds = 11" by (simp add: everySixSeconds_def)
  have t: "list_all (\<lambda>env. clock env - lastEventTime streaming \<ge> 6000) everySixSeconds"
    by (simp add: everySixSeconds_def streaming_def upt_conv_Cons)
  show ?thesis
    using eleven_errors [OF l t, of "''t''"] by (simp add: streaming_def)
qed

text \<open>
  C9. A message whose payload \<^verbatim>\<open>JSON.parse\<close> rejects, delivered on an open channel, is
  logged and nothing else: the state is left as it was, so the session goes on, and the
  next message that decodes is handled by the same handler from that same state (the time
  of the last event is set and the event is dispatched).
\<close>

theorem malformed_message_dropped:
  assumes "map_of (openChannels s) c = Some taskRunId"
    and "parse raw = None"
    and "parse raw' = Some eventData"
  shows "deliver parse env c raw s = ([Console ''Failed to parse SSE event:''], s)
       \<and> deliver parse env' c raw' (snd (deliver parse env c raw s)) =
           try_catch
             (tseq (ok (modify (\<lambda>s. s\<lparr>lastEventTime := clock env'\<rparr>)))
                   (handleRobustEvent eventData taskRunId env'))
             (emit (Console ''Failed to parse SSE event:'')) s"
  using assms
  by (simp add: deliver_def onmessage_def step_defs split: prod.splits completion.splits)

theorem malformed_message_dropped_witness:
  "deliver parseSample \<lparr>clock = 2000, eventSourceOk = True\<rparr> 1 ''{type:'' streaming =
     ([Console ''Failed to parse SSE event:''], streaming)
 \<and> deliver parseSample \<lparr>clock = 3000, eventSourceOk = True\<rparr> 1
      ''{\"type\":\"task.log\",\"message\":\"Reading the annual filings\"}''
      (snd (deliver parseSample \<lparr>clock = 2000, eventSourceOk = True\<rparr> 1 ''{type:'' streaming)) =
     ([Console ''Robust event received:'', AddSSEEvent (JStr ''Reading the annual filings'') []],
      streaming\<lparr>lastEventTime := 3000\<rparr>)"
proof -
  have a: "map_of (openChannels streaming) 1 = Some ''t''" by (simp add: streaming_def)
  have b: "parseSample ''{type:'' = None" by (simp add: parseSample_def)
  have c: "parseSample ''{\"type\":\"task.log\",\"message\":\"Reading the annual filings\"}'' =
    Some (JObj [(''type'', JStr ''task.log''), (''message'', JStr ''Reading the annual filings'')])"
    by (simp add: parseSample_def)
  note h = malformed_message_dropped [of streaming 1 "''t''" parseSample "''{type:''"
      "''{\"type\":\"task.log\",\"message\":\"Reading the annual filings\"}''"
      "JObj [(''type'', JStr ''task.log''), (''message'', JStr ''Reading the annual filings'')]"
      "\<lparr>clock = 2000, eventSourceOk = True\<rparr>" "\<lparr>clock = 3000, eventSourceOk = True\<rparr>",
      OF a b c]
  have r: "try_catch
      (tseq (ok (modify (\<lambda>s. s\<lparr>lastEventTime := clock \<lparr>clock = 3000, eventSourceOk = True\<rparr>\<rparr>)))
         (handleRobustEvent
            (JObj [(''type'', JStr ''task.log''), (''message'', JStr ''Reading the annual filings'')])
            ''t'' \<lparr>clock = 3000, eventSourceOk = True\<rparr>))
      (emit (Console ''Failed to parse SSE event:'')) streaming =
    ([Console ''Robust event received:'', AddSSEEvent (JStr ''Reading the annual filings'') []],
     streaming\<lparr>lastEventTime := 3000\<rparr>)"
    by (simp add: handleRobustEvent_def handleTaskLogEvent_def
        updateStreamingProgress_def js_or_def is_ws_def prefix_ci_def lower_def step_defs
        streaming_def)
  show ?thesis using h unfolding r .
qed

text \<open>
  C10. The message handler deals with every payload. A payload that does not decode is
  logged; one that decodes is handled, and where the handling throws, the handler's catch
  clause logs and the handler returns with the state reached at the throw. An event of type
  \<^verbatim>\<open>error\<close> whose message has no \<^verbatim>\<open>includes\<close> method (it is absent, say) makes
  \<^verbatim>\<open>handleRobustEvent\<close> throw, and the message handler returns all the same.
\<close>

theorem onmessage_catches:
  "onmessage parse taskRunId env raw s =
     (case parse raw of
        None \<Rightarrow> ([Console ''Failed to parse SSE event:''], s)
      | Some eventData \<Rightarrow>
          (case handleRobustEvent eventData taskRunId env (s\<lparr>lastEventTime := clock env\<rparr>) of
             (Returned, es, s') \<Rightarrow> (es, s')
           | (Threw, es, s') \<Rightarrow> (es @ [Console ''Failed to parse SSE event:''], s')))
 \<and> (parse raw = Some eventData \<and> getProp ''type'' eventData = JStr ''error''
      \<and> isAuthError (getProp ''message'' eventData) = None \<longrightarrow>
     fst (handleRobustEvent eventData taskRunId env (s\<lparr>lastEventTime := clock env\<rparr>)) = Threw
   \<and> onmessage parse taskRunId env raw s =
       ([Console ''Robust event received:'', Console ''Task error:'',
         Console ''Failed to parse SSE event:''],
        s\<lparr>lastEventTime := clock env, reconnectAttempts := 0\<rparr>))"
proof -
  have nn: "\<not> nullish eventData" if "getProp ''type'' eventData = JStr ''error''"
    using that by (cases eventData) simp_all
  show ?thesis
    by (auto simp add: onmessage_def handleRobustEvent_def handleTaskErrorEvent_def step_defs nn
        split: option.splits prod.splits completion.splits)
qed

theorem onmessage_catches_witness:
  "onmessage parseSample ''t'' \<lparr>clock = 2000, eventSourceOk = True\<rparr> ''{\"type\":\"error\"}'' streaming =
     ([Console ''Robust event received:'', Console ''Task error:'',  Console ''Failed to parse SSE event:''],
      streaming\<lparr>lastEventTime := 2000, reconnectAttempts := 0\<rparr>)"
  using onmessage_catches [of parseSample "''t''" "\<lparr>clock = 2000, eventSourceOk = True\<rparr>" "''{\"type\":\"error\"}''" streaming
      "JObj [(''type'', JStr ''error'')]", THEN conjunct2]
  by (simp add: parseSample_def isAuthError_def)

lemmas scenario_defs =
  probing_def reconnecting_def streaming_def fireTimer_def respond_def disarm_def
  watchdogFired_def startRobustMonitoring_def handleConnectionError_def waitTime_def

text \<open>
  What the handler of \<^verbatim>\<open>error\<close> events does where the message contains
  "Unauthorized access" or "Authentication required": it logs, shows the authentication
  error, clears the loading state, arms a 2000 ms timeout that redirects to the login
  page, and returns. It does not take the connection-error path (no reconnect timer, the
  attempt counter untouched), and it changes nothing else of the monitor: the completion
  flag, the channel and the other timers are as they were.
\<close>

theorem auth_error_surfaced:
  assumes "getProp ''message'' eventData = JStr m"
    and "str_includes m ''Unauthorized access'' \<or> str_includes m ''Authentication required''"
  shows "handleTaskErrorEvent eventData taskRunId env s =
           (Returned,
            [Console ''Task error:'', Console ''Authentication error in SSE stream'',
             ShowErrorModal (JStr ''Authentication error. Please sign in again.''),
             SetLoadingState False, SetTimeout (nextId s) 2000 LoginRedirect],
            s\<lparr>timers := timers s @ [(nextId s, LoginRedirect)], nextId := Suc (nextId s)\<rparr>)"
  using assms
  by (cases "str_includes m ''Authentication required''")
     (auto simp add: handleTaskErrorEvent_def isAuthError_def Let_def step_defs browser_defs ui_defs)

theorem auth_error_surfaced_witness:
  "handleTaskErrorEvent authEvent ''t'' \<lparr>clock = 2000, eventSourceOk = True\<rparr> streaming =
           (Returned,
            [Console ''Task error:'', Console ''Authentication error in SSE stream'',
             ShowErrorModal (JStr ''Authentication error. Please sign in again.''),
             SetLoadingState False, SetTimeout 3 2000 LoginRedirect],
            streaming\<lparr>timers := [(2, Watchdog ''t''), (3, LoginRedirect)], nextId := 4\<rparr>)"
  using auth_error_surfaced [of authEvent "''Unauthorized access to task stream''" "''t''"
      "\<lparr>clock = 2000, eventSourceOk = True\<rparr>" streaming]
  by (simp add: authEvent_def streaming_def)

text \<open>
  C5 fails: the authentication error does not make the session terminal at once. The
  event arrives at 29500 ms on the open channel of a session started at 1000 ms. The
  handler shows the authentication failure, but unlike \<^verbatim>\<open>handleTaskCompletion\<close> it neither
  sets the completion flag nor closes the channel: the channel is still open and the
  30 second timeout still armed. So a connection error at 30000 ms schedules a reconnect
  wait, and the 30 second timeout, firing at 31000 ms, sends the fallback monitor's probe.
  The session ends only when the redirect fires at 31500 ms and the page is left.
\<close>

theorem auth_error_not_terminal:
  "case deliver (\<lambda>raw. Some authEvent) (at 29500) 1 [] streaming of
     (es, s) \<Rightarrow>
       filter isOutcome es = [ShowErrorModal (JStr ''Authentication error. Please sign in again.'')]
     \<and> \<not> isTaskComplete s \<and> openChannels s = [(1, ''t'')] \<and> currentEventSource s = Some 1
     \<and> timers s = [(2, Watchdog ''t''), (3, LoginRedirect)]
     \<and> schedulesReconnect (fst (handleConnectionError ''t'' (at 30000) s))
     \<and> startsFallback (fst (fireTimer (at 31000) 2 s))
     \<and> (case fireTimer (at 31500) 3 s of
          (es', s') \<Rightarrow> es' = [Navigate ''/login'', CloseChannel 1] \<and> isTaskComplete s')"
  by (simp add: authEvent_def streaming_def at_def deliver_def onmessage_def handleRobustEvent_def
      handleTaskErrorEvent_def isAuthError_def handleConnectionError_def schedulesReconnect_def
      startsFallback_def fireTimer_def watchdogFired_def startRobustMonitoring_def disarm_def
      waitTime_def cleanup_def cleanupConnections_def stopPollingFallback_def
      step_defs browser_defs ui_defs)




text \<open>A handle that has been cleared is no longer armed.\<close>

lemma map_of_filter_out:
  assumes "\<And>p. P p \<Longrightarrow> fst p \<noteq> k"
  shows "map_of (filter P xs) k = None"
  using assms by (induction xs) auto

lemma map_of_disarmed:
  "map_of (filter (\<lambda>p. fst p \<noteq> k) xs) k = None"
  "map_of (filter (\<lambda>p. fst p \<noteq> k \<and> fst p \<noteq> j) xs) k = None"
  by (rule map_of_filter_out, simp)+

text \<open>What \<^verbatim>\<open>cleanup\<close> leaves: the flag set, the current channel closed, the progress and
  the legacy polling intervals cleared, nothing shown.\<close>

lemma cleanup_result:
  "case cleanup s of
     (es, s') \<Rightarrow>
       isTaskComplete s' \<and> currentEventSource s' = None \<and> pollingInterval s' = None
     \<and> (case currentEventSource s of Some c \<Rightarrow> map_of (openChannels s') c = None | None \<Rightarrow> True)
     \<and> (case progressInterval s of Some t \<Rightarrow> map_of (timers s') t = None | None \<Rightarrow> True)
     \<and> filter isProjection es = []"
  by (simp add: cleanup_def cleanupConnections_def stopPollingFallback_def
      step_defs browser_defs map_of_disarmed split: option.splits)

text \<open>The guards on \<^verbatim>\<open>isTaskComplete\<close>: once it is set, these callbacks do nothing (the
  status tick clears its own interval).\<close>

lemma complete_guards:
  assumes "isTaskComplete s"
  shows "reconnectTimerFired taskRunId env s = ([], s)"
    and "watchdogFired taskRunId s = ([], s)"
    and "connectToStreamRobust taskRunId env s = ([], s)"
    and "handleConnectionError taskRunId env s = ([], s)"
    and "startRobustMonitoring taskRunId s = ([], s)"
    and "statusCheckTick taskRunId s =
         (case statusCheckInterval s of Some t \<Rightarrow> clearTimer t s | None \<Rightarrow> ([], s))"
  using assms
  by (simp_all add: reconnectTimerFired_def watchdogFired_def connectToStreamRobust_def
      handleConnectionError_def startRobustMonitoring_def statusCheckTick_def skip_def
      split: option.splits)

lemma complete_fireTimer:
  assumes "isTaskComplete s" and "currentEventSource s = None" and "pollingInterval s = None"
  shows "case fireTimer env t s of
          (es2, s2) \<Rightarrow>
            filter isProjection es2 = [] \<and> openChannels s2 = openChannels s
          \<and> pending s2 = pending s \<and> s2\<lparr>timers := timers s\<rparr> = s"
proof (cases "map_of (timers s) t")
  case None
  then show ?thesis by (simp add: fireTimer_def)
next
  case (Some cb)
  have same: "s\<lparr>isTaskComplete := True\<rparr> = s"
    using assms(1) by (cases s) simp
  from Some show ?thesis using assms
    by (cases cb)
       (simp_all add: fireTimer_def disarm_def complete_guards cleanup_def cleanupConnections_def
          stopPollingFallback_def seq_def modify_def emit_def skip_def clearTimer_def same
          split: option.splits)
qed


text \<open>
  C7 as stated fails: \<^verbatim>\<open>cleanup\<close> during a reconnect wait clears no timer. The reconnect
  timeout and the 30 second timeout are still armed when it returns, so their callbacks
  will run.
\<close>

theorem cleanup_leaves_timers_armed:
  "case cleanup reconnecting of
     (es, s) \<Rightarrow>
       timers s = [(2, Watchdog ''t''), (3, ReconnectTimer ''t'')]
     \<and> reconnectTimeout s = Some 3
     \<and> map_of (timers s) 3 = Some (ReconnectTimer ''t'')
     \<and> filter isTimerEffect es = [] \<and> es = []"
  by (simp add: scenario_defs cleanup_def cleanupConnections_def stopPollingFallback_def
      step_defs browser_defs ui_defs)

text \<open>
  C7, as the code has it. When \<^verbatim>\<open>cleanup\<close> returns, the completion flag is set, the current
  channel is closed, and the progress and legacy polling intervals are cleared; it shows
  nothing. The reconnect timeout, the status interval and the 30 second timeout are not
  cleared, but their callbacks test the flag: the reconnect callback and the 30 second
  callback do nothing, \<^verbatim>\<open>connectToStreamRobust\<close> opens no channel, the status tick only
  clears its own interval. Whatever timer fires afterwards shows nothing, opens no channel
  and sends no request, and changes the state in nothing but the set of armed timers.
\<close>

theorem cleanup_stops_monitoring:
  "case cleanup s of
     (es, s') \<Rightarrow>
       isTaskComplete s' \<and> currentEventSource s' = None \<and> pollingInterval s' = None
     \<and> (case currentEventSource s of Some c \<Rightarrow> map_of (openChannels s') c = None | None \<Rightarrow> True)
     \<and> (case progressInterval s of Some t \<Rightarrow> map_of (timers s') t = None | None \<Rightarrow> True)
     \<and> filter isProjection es = []
     \<and> reconnectTimerFired taskRunId env s' = ([], s')
     \<and> watchdogFired taskRunId s' = ([], s')
     \<and> connectToStreamRobust taskRunId env s' = ([], s')
     \<and> statusCheckTick taskRunId s' =
         (case statusCheckInterval s' of Some t \<Rightarrow> clearTimer t s' | None \<Rightarrow> ([], s'))
     \<and> (case fireTimer env t s' of
          (es2, s2) \<Rightarrow>
            filter isProjection es2 = [] \<and> openChannels s2 = openChannels s'
          \<and> pending s2 = pending s' \<and> s2\<lparr>timers := timers s'\<rparr> = s')"
proof -
  obtain es s' where c: "cleanup s = (es, s')" by (cases "cleanup s")
  from cleanup_result [of s] c have fin: "isTaskComplete s'"
    and cur: "currentEventSource s' = None" and pol: "pollingInterval s' = None"
    by simp_all
  show ?thesis
    using cleanup_result [of s] complete_guards [OF fin]
      complete_fireTimer [OF fin cur pol, of env t]
    by (simp add: c)
qed

theorem cleanup_stops_monitoring_witness:
  "case cleanup reconnecting of
     (es, s') \<Rightarrow>
       isTaskComplete s' \<and> filter isProjection es = []
     \<and> reconnectTimerFired ''t'' \<lparr>clock = 11000, eventSourceOk = True\<rparr> s' = ([], s')
     \<and> connectToStreamRobust ''t'' \<lparr>clock = 11000, eventSourceOk = True\<rparr> s' = ([], s')"
  using cleanup_stops_monitoring [of reconnecting "''t''" "\<lparr>clock = 11000, eventSourceOk = True\<rparr>" 3]
  by (cases "cleanup reconnecting") simp

lemmas handler_defs =
  handleRobustEvent_def handleTaskStatusEvent_def handleTaskLogEvent_def handleTaskCompletion_def
  updateStreamingProgress_def cleanupConnections_def stopPollingFallback_def no_data_def
  js_or_def is_ws_def prefix_ci_def lower_def onmessage_def deliver_def

lemma twoChannels_eq:
  "twoChannels =
     \<lparr>currentTaskId = ''t'', reconnectAttempts = 0, maxReconnectAttempts = 10,
      isTaskComplete = False, lastEventTime = 1000, currentEventSource = Some 6,
      reconnectTimeout = None, statusCheckInterval = Some 4, progressInterval = None,
      pollingInterval = None, openChannels = [(1, ''t''), (6, ''t'')],
      timers = [(4, StatusCheck ''t'')], pending = [], nextId = 7\<rparr>"
  by (simp add: twoChannels_def at_def stillRunning_def scenario_defs startRobustMonitoring_resume_def
      showConnectionLostUI_def startPeriodicStatusCheck_def manualStatusCheck_def
      manualStatusCheck_status_def connectToStreamRobust_def step_defs browser_defs ui_defs)

lemma completedLeaked_eq:
  "completedLeaked =
     \<lparr>currentTaskId = ''t'', reconnectAttempts = 0, maxReconnectAttempts = 10,
      isTaskComplete = True, lastEventTime = 60000, currentEventSource = None,
      reconnectTimeout = None, statusCheckInterval = Some 4, progressInterval = None,
      pollingInterval = None, openChannels = [(1, ''t'')],
      timers = [(4, StatusCheck ''t'')], pending = [], nextId = 7\<rparr>"
  by (simp add: completedLeaked_def twoChannels_eq at_def failedEvent_def handler_defs
      step_defs browser_defs ui_defs)

text \<open>
  C1 fails for the message handler, the one handler without a guard on the completion
  flag (the others are in \<open>complete_guards\<close>). In \<open>completedLeaked\<close> the flag is set and
  channel 1 is still open; a log message delivered on it sets the time of the last event
  (and assigns 0 to the attempt counter) and is shown in the feed.
\<close>

theorem message_after_completion:
  "isTaskComplete completedLeaked
 \<and> map_of (openChannels completedLeaked) 1 = Some ''t''
 \<and> lastEventTime completedLeaked = 60000
 \<and> deliver parseSample (at 61000) 1
      ''{\"type\":\"task.log\",\"message\":\"Reading the annual filings\"}'' completedLeaked =
     ([Console ''Robust event received:'', AddSSEEvent (JStr ''Reading the annual filings'') []],
      completedLeaked\<lparr>lastEventTime := 61000\<rparr>)"
  by (simp add: completedLeaked_eq at_def parseSample_def handler_defs step_defs browser_defs ui_defs)

text \<open>The event that ends the task, handled twice in a row.\<close>

lemma failed_once:
  "handleRobustEvent failedEvent ''t'' (at 2000) streaming =
     (Returned,
      [Console ''Robust event received:'',
       AddSSEEvent (JStr ''Task run failed upstream'') ''status'',
       Console ''Task completed with status:'', Console ''Handling task completion:'',
       CloseChannel 1,
       AddSSEEvent (JStr ''Task completed, processing final results...'') [],
       ShowErrorModal (JStr ''Task failed with status: failed''), SetLoadingState False],
      streaming\<lparr>isTaskComplete := True, currentEventSource := None, openChannels := []\<rparr>)"
  by (simp add: streaming_def at_def failedEvent_def handler_defs step_defs browser_defs ui_defs)

lemma failed_again:
  "handleRobustEvent failedEvent ''t'' (at 2000)
      (streaming\<lparr>isTaskComplete := True, currentEventSource := None, openChannels := []\<rparr>) =
     (Returned,
      [Console ''Robust event received:'',
       AddSSEEvent (JStr ''Task run failed upstream'') ''status'',
       Console ''Task completed with status:'', Console ''Handling task completion:'',
       AddSSEEvent (JStr ''Task completed, processing final results...'') [],
       ShowErrorModal (JStr ''Task failed with status: failed''), SetLoadingState False],
      streaming\<lparr>isTaskComplete := True, currentEventSource := None, openChannels := []\<rparr>)"
  by (simp add: streaming_def at_def failedEvent_def handler_defs step_defs browser_defs ui_defs)

lemma completed_once:
  "handleRobustEvent completedEvent ''t'' (at 2000) streaming =
     (Returned,
      [Console ''Robust event received:'',
       AddSSEEvent (JStr ''Task run completed upstream'') ''status'',
       Console ''Task completed with status:'', Console ''Handling task completion:'',
       CloseChannel 1,
       AddSSEEvent (JStr ''Task completed, processing final results...'') [],
       Fetch 3 (MonitorTask ''t'')],
      streaming\<lparr>isTaskComplete := True, currentEventSource := None, openChannels := [],
        pending := [(3, CompletionProbe ''t'')], nextId := 4\<rparr>)"
  by (simp add: streaming_def at_def completedEvent_def handler_defs step_defs browser_defs ui_defs)

lemma completed_again:
  "handleRobustEvent completedEvent ''t'' (at 2000)
      (streaming\<lparr>isTaskComplete := True, currentEventSource := None, openChannels := [],
        pending := [(3, CompletionProbe ''t'')], nextId := 4\<rparr>) =
     (Returned,
      [Console ''Robust event received:'',
       AddSSEEvent (JStr ''Task run completed upstream'') ''status'',
       Console ''Task completed with status:'', Console ''Handling task completion:'',
       AddSSEEvent (JStr ''Task completed, processing final results...'') [],
       Fetch 4 (MonitorTask ''t'')],
      streaming\<lparr>isTaskComplete := True, currentEventSource := None, openChannels := [],
        pending := [(3, CompletionProbe ''t''), (4, CompletionProbe ''t'')], nextId := 5\<rparr>)"
  by (simp add: streaming_def at_def completedEvent_def handler_defs step_defs browser_defs ui_defs)

lemma leaked_first:
  "deliver (\<lambda>raw. Some failedEvent) (at 60000) 6 [] twoChannels =
     ([Console ''Robust event received:'',
       AddSSEEvent (JStr ''Task run failed upstream'') ''status'',
       Console ''Task completed with status:'', Console ''Handling task completion:'',
       CloseChannel 6,
       AddSSEEvent (JStr ''Task completed, processing final results...'') [],
       ShowErrorModal (JStr ''Task failed with status: failed''), SetLoadingState False],
      completedLeaked)"
  unfolding completedLeaked_eq
  by (simp add: twoChannels_eq at_def failedEvent_def handler_defs step_defs browser_defs ui_defs)

lemma leaked_second:
  "deliver (\<lambda>raw. Some failedEvent) (at 60001) 1 [] completedLeaked =
     ([Console ''Robust event received:'',
       AddSSEEvent (JStr ''Task run failed upstream'') ''status'',
       Console ''Task completed with status:'', Console ''Handling task completion:'',
       AddSSEEvent (JStr ''Task completed, processing final results...'') [],
       ShowErrorModal (JStr ''Task failed with status: failed''), SetLoadingState False],
      completedLeaked\<lparr>lastEventTime := 60001\<rparr>)"
  by (simp add: completedLeaked_eq at_def failedEvent_def handler_defs step_defs browser_defs ui_defs)

text \<open>
  C2 fails: the handler of decoded events does not test the completion flag, so a second
  delivery of the event that ends the task is handled like the first. With status
  \<^verbatim>\<open>failed\<close> each delivery shows the error outcome; with status \<^verbatim>\<open>completed\<close> each
  delivery sends its own request for the final result. Only the closing of the channel
  happens once. The same with the two open channels of \<open>twoChannels\<close>, each delivering
  the event: two outcomes.
\<close>

theorem terminated_event_twice:
  "(case handleRobustEvent failedEvent ''t'' (at 2000) streaming of
      (c1, es1, s1) \<Rightarrow>
        (case handleRobustEvent failedEvent ''t'' (at 2000) s1 of
           (c2, es2, s2) \<Rightarrow>
             c1 = Returned \<and> c2 = Returned
           \<and> filter isOutcome es1 = [ShowErrorModal (JStr ''Task failed with status: failed'')]
           \<and> filter isOutcome es2 = [ShowErrorModal (JStr ''Task failed with status: failed'')]
           \<and> filter isProjection es2 =
               [AddSSEEvent (JStr ''Task run failed upstream'') ''status'',
                AddSSEEvent (JStr ''Task completed, processing final results...'') [],
                ShowErrorModal (JStr ''Task failed with status: failed''),
                SetLoadingState False]))
 \<and> (case handleRobustEvent completedEvent ''t'' (at 2000) streaming of
      (c1, es1, s1) \<Rightarrow>
        (case handleRobustEvent completedEvent ''t'' (at 2000) s1 of
           (c2, es2, s2) \<Rightarrow>
             pending s1 = [(3, CompletionProbe ''t'')]
           \<and> pending s2 = [(3, CompletionProbe ''t''), (4, CompletionProbe ''t'')]))
 \<and> (case deliver (\<lambda>raw. Some failedEvent) (at 60000) 6 [] twoChannels of
      (es1, s1) \<Rightarrow>
        (case deliver (\<lambda>raw. Some failedEvent) (at 60001) 1 [] s1 of
           (es2, s2) \<Rightarrow>
             filter isOutcome (es1 @ es2) =
               [ShowErrorModal (JStr ''Task failed with status: failed''),
                ShowErrorModal (JStr ''Task failed with status: failed'')]))"
  unfolding failed_once failed_again completed_once completed_again leaked_first leaked_second
    prod.case
  by simp

end
